theory Spec2Isabelle
  imports Main "HOL-Library.Word"
begin

unbundle bit_operations_syntax

section \<open>Go values\<close>

type_synonym byte = "8 word"
type_synonym uint64 = "64 word"

text \<open>A run-time panic aborts the goroutine; an \<open>error\<close> is an ordinary returned value.\<close>

datatype panic = NilDereference | IndexOutOfRange

datatype error =
    EOF
  | ErrUnexpectedEOF
  | ErrOverflow
  | ThingExists string
  | InvalidPropertyName string
  | InvalidActionName string
  | ThingNotFound string
  | MarshalFailed
  | WriteFailed

section \<open>encoding/binary: unsigned varints\<close>

text \<open>
  \<^verbatim>\<open>binary.PutUvarint(buf, x)\<close>: writes seven bits per byte, least significant group
  first, with the high bit set on every byte but the last; indexing \<open>buf\<close> beyond its
  length panics. Returns the buffer and the number of bytes written.
\<close>

function PutUvarint_loop :: "byte list \<Rightarrow> nat \<Rightarrow> uint64 \<Rightarrow> panic + (byte list \<times> nat)" where
  "PutUvarint_loop buf i x =
     (if 0x80 \<le> x then
        (if i < length buf
         then PutUvarint_loop (buf[i := ucast x OR 0x80]) (i + 1) (drop_bit 7 x)
         else Inl IndexOutOfRange)
      else
        (if i < length buf then Inr (buf[i := ucast x], i + 1) else Inl IndexOutOfRange))"
  by pat_completeness auto
termination
proof (relation "measure (\<lambda>(buf, i, x). unat x)")
  show "wf (measure (\<lambda>(buf, i, x). unat x))" by simp
next
  fix buf :: "byte list" and i :: nat and x :: uint64
  assume "0x80 \<le> x"
  then have "128 \<le> unat x" by (simp add: word_le_nat_alt)
  then have "unat x div 128 < unat x" by simp
  then have "unat (drop_bit 7 x) < unat x"
    by (simp add: drop_bit_eq_div unat_div)
  then show "((buf[i := ucast x OR 0x80], i + 1, drop_bit 7 x), (buf, i, x))
      \<in> measure (\<lambda>(buf, i, x). unat x)" by simp
qed

declare PutUvarint_loop.simps [simp del]

definition PutUvarint :: "byte list \<Rightarrow> uint64 \<Rightarrow> panic + (byte list \<times> nat)" where
  "PutUvarint buf x = PutUvarint_loop buf 0 x"

text \<open>
  \<^verbatim>\<open>bytes.Buffer\<close> is the list of its unread bytes: \<open>Write\<close> appends, \<open>ReadByte\<close> takes
  the head (\<open>EOF\<close> on an empty buffer), \<open>Reset\<close> empties it.

  \<^verbatim>\<open>binary.ReadUvarint(r)\<close> reads bytes from the buffer until one has the high bit clear,
  at most \<open>MaxVarintLen64 = 10\<close> of them. The bytes it reads are consumed, also when it
  ends in an error. Returns the result and the buffer that is left.
\<close>

fun ReadUvarint_loop :: "byte list \<Rightarrow> uint64 \<Rightarrow> nat \<Rightarrow> nat \<Rightarrow> (error + uint64) \<times> byte list" where
  "ReadUvarint_loop [] x s i =
     (if 10 \<le> i then (Inl ErrOverflow, [])
      else (Inl (if 0 < i then ErrUnexpectedEOF else EOF), []))"
| "ReadUvarint_loop (b # r) x s i =
     (if 10 \<le> i then (Inl ErrOverflow, b # r)
      else if b < 0x80 then
        (if i = 9 \<and> 1 < b then (Inl ErrOverflow, r)
         else (Inr (x OR push_bit s (ucast b)), r))
      else ReadUvarint_loop r (x OR push_bit s (ucast (b AND 0x7f))) (s + 7) (i + 1))"

definition ReadUvarint :: "byte list \<Rightarrow> (error + uint64) \<times> byte list" where
  "ReadUvarint r = ReadUvarint_loop r 0 0 0"

section \<open>The connection as a byte stream\<close>

text \<open>
  The inbound side of \<^verbatim>\<open>net.Conn\<close> is the list of chunks the transport will still
  deliver. \<^verbatim>\<open>conn.Read(buf)\<close> returns at most \<open>len(buf)\<close> bytes of the first chunk and
  leaves the rest of it for the next call; an empty chunk is a read of zero bytes; when
  nothing is left the read fails.
\<close>

type_synonym conn = "byte list list"

fun Read :: "nat \<Rightarrow> conn \<Rightarrow> (error + byte list) \<times> conn" where
  "Read n [] = (Inl EOF, [])"
| "Read n (ch # rest) =
     (if length ch \<le> n then (Inr ch, rest) else (Inr (take n ch), drop n ch # rest))"

definition conn_size :: "conn \<Rightarrow> nat" where
  "conn_size cn = sum_list (map (\<lambda>ch. length ch + 1) cn)"

section \<open>Client.read: the receive loop\<close>

text \<open>
  The inner loop of \<^verbatim>\<open>read\<close> (client.go, lines 229-240): reads until \<open>expectedLength\<close>
  bytes have been appended to \<open>messageBuf\<close>, or a read fails (\<open>break\<close>). The allocation
  of \<open>dataBuf\<close> is taken to succeed.
\<close>

function read_body :: "uint64 \<Rightarrow> uint64 \<Rightarrow> byte list \<Rightarrow> conn \<Rightarrow> byte list \<times> conn" where
  "read_body expectedLength receivedBytesTotal messageBuf cn =
     (if receivedBytesTotal < expectedLength then
        (case Read (unat (expectedLength - receivedBytesTotal)) cn of
           (Inl err, cn') \<Rightarrow> (messageBuf, cn')
         | (Inr dataBuf, cn') \<Rightarrow>
             read_body expectedLength (receivedBytesTotal + of_nat (length dataBuf))
               (messageBuf @ dataBuf) cn')
      else (messageBuf, cn))"
  by pat_completeness auto
termination
proof (relation "measure (\<lambda>(e, r, m, cn). conn_size cn)")
  show "wf (measure (\<lambda>(e, r, m, cn). conn_size cn))" by simp
next
  fix expectedLength receivedBytesTotal :: uint64 and messageBuf :: "byte list"
    and cn :: conn and x and cn' :: conn and dataBuf :: "byte list"
  assume lt: "receivedBytesTotal < expectedLength"
    and rd: "(x, cn') = Read (unat (expectedLength - receivedBytesTotal)) cn"
    and ok: "x = Inr dataBuf"
  from lt have pos: "0 < unat (expectedLength - receivedBytesTotal)"
    by (auto simp: unat_gt_0)
  from rd ok pos have "conn_size cn' < conn_size cn"
    by (cases cn) (auto simp: conn_size_def split: if_splits)
  then show "((expectedLength, receivedBytesTotal + of_nat (length dataBuf),
      messageBuf @ dataBuf, cn'), (expectedLength, receivedBytesTotal, messageBuf, cn))
      \<in> measure (\<lambda>(e, r, m, cn). conn_size cn)" by simp
qed

text \<open>
  The outer loop (lines 211-249), with the codec's \<^verbatim>\<open>proto.Unmarshal\<close> as the parameter
  \<open>Unmarshal\<close>. One byte is read and appended to \<open>lengthBuf\<close>, which \<open>ReadUvarint\<close> then
  reads from: on an error the loop goes on with what \<open>ReadUvarint\<close> left in \<open>lengthBuf\<close>;
  on success \<open>lengthBuf\<close> is reset and the payload is read. \<open>messageBuf\<close> is reset only
  after a successful \<open>Unmarshal\<close>; the \<open>continue\<close> of the failure branch skips the
  reset. The result is the sequence of messages put on \<open>receiveChan\<close> until a read fails.
\<close>

function read_loop ::
  "(byte list \<Rightarrow> 'm option) \<Rightarrow> byte list \<Rightarrow> byte list \<Rightarrow> conn \<Rightarrow> 'm list \<Rightarrow> 'm list" where
  "read_loop Unmarshal messageBuf lengthBuf cn receiveChan =
     (case Read 1 cn of
        (Inl err, cn1) \<Rightarrow> receiveChan
      | (Inr lengthBytes, cn1) \<Rightarrow>
          if length lengthBytes = 0 then read_loop Unmarshal messageBuf lengthBuf cn1 receiveChan
          else
            (case ReadUvarint (lengthBuf @ lengthBytes) of
               (Inl err, lengthBuf') \<Rightarrow> read_loop Unmarshal messageBuf lengthBuf' cn1 receiveChan
             | (Inr expectedLength, lengthBuf') \<Rightarrow>
                 (case read_body expectedLength 0 messageBuf cn1 of
                    (messageBuf', cn2) \<Rightarrow>
                      (case Unmarshal messageBuf' of
                         None \<Rightarrow> read_loop Unmarshal messageBuf' [] cn2 receiveChan
                       | Some serverMessage \<Rightarrow>
                           read_loop Unmarshal [] [] cn2 (receiveChan @ [serverMessage])))))"
  by pat_completeness auto
termination
proof -
  have body: "conn_size (snd (read_body e r m cn)) \<le> conn_size cn" for e r m cn
  proof (induction e r m cn rule: read_body.induct)
    case (1 e r m cn)
    show ?case
    proof (cases "r < e")
      case False
      then show ?thesis by simp
    next
      case True
      show ?thesis
      proof (cases "Read (unat (e - r)) cn")
        case (Pair x cn')
        have le: "conn_size cn' \<le> conn_size cn"
          using Pair by (cases cn) (auto simp: conn_size_def split: if_splits)
        show ?thesis
        proof (cases x)
          case (Inl err)
          with True Pair le show ?thesis by simp
        next
          case (Inr dataBuf)
          from "1.IH" [OF True Pair [symmetric] Inr]
          have "conn_size (snd (read_body e (r + of_nat (length dataBuf)) (m @ dataBuf) cn'))
              \<le> conn_size cn'" .
          with True Pair Inr le show ?thesis by simp
        qed
      qed
    qed
  qed
  have one: "conn_size cn1 < conn_size cn" if "Read 1 cn = (Inr bs, cn1)" for cn cn1 bs
    using that by (cases cn) (auto simp: conn_size_def split: if_splits)
  show ?thesis
  proof (relation "measure (\<lambda>(u, m, l, cn, q). conn_size cn)")
    show "wf (measure (\<lambda>(u, m, l, cn, q). conn_size cn))" by simp
  next
    fix Unmarshal :: "byte list \<Rightarrow> 'm option" and messageBuf lengthBuf :: "byte list"
      and cn :: conn and receiveChan :: "'m list" and x cn1 lengthBytes
    assume "(x, cn1) = Read 1 cn" "x = Inr lengthBytes"
    then show "((Unmarshal, messageBuf, lengthBuf, cn1, receiveChan),
        (Unmarshal, messageBuf, lengthBuf, cn, receiveChan))
        \<in> measure (\<lambda>(u, m, l, cn, q). conn_size cn)"
      using one [of cn lengthBytes cn1] by simp
  next
    fix Unmarshal :: "byte list \<Rightarrow> 'm option" and messageBuf lengthBuf :: "byte list"
      and cn :: conn and receiveChan :: "'m list" and x cn1 lengthBytes and lengthBuf' :: "byte list"
    assume "(x, cn1) = Read 1 cn" "x = Inr lengthBytes"
    then show "((Unmarshal, messageBuf, lengthBuf', cn1, receiveChan),
        (Unmarshal, messageBuf, lengthBuf, cn, receiveChan))
        \<in> measure (\<lambda>(u, m, l, cn, q). conn_size cn)"
      using one [of cn lengthBytes cn1] by simp
  next
    fix Unmarshal :: "byte list \<Rightarrow> 'm option" and messageBuf lengthBuf :: "byte list"
      and cn :: conn and receiveChan :: "'m list" and x cn1 lengthBytes
      and expectedLength :: uint64 and xb and messageBuf' :: "byte list" and cn2 :: conn
    assume "(x, cn1) = Read 1 cn" "x = Inr lengthBytes"
      and "(xb, cn2) = read_body expectedLength 0 messageBuf cn1"
    then have "conn_size cn2 < conn_size cn"
      using one [of cn lengthBytes cn1] body [of expectedLength 0 messageBuf cn1]
      by (metis le_less_trans not_le order.strict_trans2 snd_conv)
    then show "((Unmarshal, xb, [], cn2, receiveChan),
        (Unmarshal, messageBuf, lengthBuf, cn, receiveChan))
        \<in> measure (\<lambda>(u, m, l, cn, q). conn_size cn)"
      by simp
  next
    fix Unmarshal :: "byte list \<Rightarrow> 'm option" and messageBuf lengthBuf :: "byte list"
      and cn :: conn and receiveChan :: "'m list" and x cn1 lengthBytes
      and expectedLength :: uint64 and xb and cn2 :: conn and serverMessage :: 'm
    assume "(x, cn1) = Read 1 cn" "x = Inr lengthBytes"
      and "(xb, cn2) = read_body expectedLength 0 messageBuf cn1"
    then have "conn_size cn2 < conn_size cn"
      using one [of cn lengthBytes cn1] body [of expectedLength 0 messageBuf cn1]
      by (metis le_less_trans not_le order.strict_trans2 snd_conv)
    then show "((Unmarshal, [], [], cn2, receiveChan @ [serverMessage]),
        (Unmarshal, messageBuf, lengthBuf, cn, receiveChan))
        \<in> measure (\<lambda>(u, m, l, cn, q). conn_size cn)"
      by simp
  qed
qed

declare read_body.simps [simp del] read_loop.simps [simp del]

definition read :: "(byte list \<Rightarrow> 'm option) \<Rightarrow> conn \<Rightarrow> 'm list" where
  "read Unmarshal cn = read_loop Unmarshal [] [] cn []"

section \<open>The device model\<close>

text \<open>
  Go pointers are addresses into a store with one table per struct type. A pointer field
  that the code leaves \<^verbatim>\<open>nil\<close> until registration (\<open>parent\<close>, \<open>client\<close>, \<open>writer\<close>) or
  that a struct literal may omit (\<open>Value\<close>, \<open>Execute\<close>) is an \<open>option\<close>, and following
  \<open>None\<close> panics. The elements of the slices of the tree are taken to be non-nil.
\<close>

type_synonym ThingPtr = nat
type_synonym ComponentPtr = nat
type_synonym CapabilityPtr = nat
type_synonym PropertyPtr = nat
type_synonym ActionPtr = nat
type_synonym ClientPtr = nat

text \<open>
  \<^verbatim>\<open>type ValueType byte\<close> with the three declared constants. \<^verbatim>\<open>v.String()\<close> indexes
  \<^verbatim>\<open>ValueTypeStrings\<close>, which panics for every other value of the byte.
\<close>

type_synonym ValueType = byte

definition Boolean :: ValueType where
  "Boolean = 0"

definition String :: ValueType where
  "String = 1"

definition Number :: ValueType where
  "Number = 2"

definition ValueTypeStrings :: "string list" where
  "ValueTypeStrings = [''BOOLEAN'', ''STRING'', ''NUMBER'']"

definition ValueType_String :: "ValueType \<Rightarrow> panic + string" where
  "ValueType_String v =
     (if unat v < length ValueTypeStrings then Inr (ValueTypeStrings ! unat v)
      else Inl IndexOutOfRange)"

record Value =
  Type :: ValueType
  Symbol :: string
  Value :: string

record Property =
  Value :: "Value option"
  Name :: string
  client :: "ClientPtr option"
  parent :: "CapabilityPtr option"

record ActionParameter =
  Type :: "ValueType option"
  Name :: string

text \<open>
  An \<^verbatim>\<open>Action\<close> is its descriptor and the handler \<^verbatim>\<open>Execute\<close>. The handler receives a
  copy of the action and the argument values, and returns \<^verbatim>\<open>nil\<close> (\<open>None\<close>) or an error,
  kept as the text \<^verbatim>\<open>fmt.Sprintf("%v", err)\<close> renders. It is taken to be a function of
  its arguments that leaves the store alone.
\<close>

record ActionDesc =
  Name :: string
  Parameters :: "ActionParameter list"
  parent :: "CapabilityPtr option"

record Action = ActionDesc +
  Execute :: "(ActionDesc \<Rightarrow> string list \<Rightarrow> string option) option"

record Capability =
  Id :: string
  Actions :: "ActionPtr list"
  Properties :: "PropertyPtr list"
  parent :: "ComponentPtr option"

record Component =
  Id :: string
  Name :: string
  ComponentType :: string
  Capabilities :: "CapabilityPtr list"
  Properties :: "PropertyPtr list"
  Actions :: "ActionPtr list"
  parent :: "ThingPtr option"

record Attribute =
  Name :: string
  Value :: string

record Thing =
  Components :: "ComponentPtr list"
  Id :: string
  Name :: string
  Manufacturer :: string
  DisplayType :: string
  MaincomponentId :: string
  Attributes :: "Attribute list"
  ComponentType :: string

text \<open>
  \<^verbatim>\<open>bufio.Writer\<close> over the connection: the bytes buffered, the bytes flushed to the
  transport, and the error the writer keeps once a write has failed.
\<close>

record Writer =
  buffered :: "byte list"
  flushed :: "byte list"
  err :: "error option"

definition Write :: "Writer \<Rightarrow> byte list \<Rightarrow> (error + nat) \<times> Writer" where
  "Write w p =
     (case err w of
        Some e \<Rightarrow> (Inl e, w)
      | None \<Rightarrow> (Inr (length p), w\<lparr>buffered := buffered w @ p\<rparr>))"

definition Flush :: "Writer \<Rightarrow> error option \<times> Writer" where
  "Flush w =
     (case err w of
        Some e \<Rightarrow> (Some e, w)
      | None \<Rightarrow> (None, w\<lparr>flushed := flushed w @ buffered w, buffered := []\<rparr>))"

record Client =
  writer :: "Writer option"
  things :: "ThingPtr list"
  updateCounter :: uint64
  connected :: bool

text \<open>
  The store. \<open>calls\<close> records every handler invocation (the action, the descriptor passed
  and the arguments), in order.
\<close>

record State =
  thingAt :: "ThingPtr \<Rightarrow> Thing"
  componentAt :: "ComponentPtr \<Rightarrow> Component"
  capabilityAt :: "CapabilityPtr \<Rightarrow> Capability"
  propertyAt :: "PropertyPtr \<Rightarrow> Property"
  actionAt :: "ActionPtr \<Rightarrow> Action"
  clientAt :: "ClientPtr \<Rightarrow> Client"
  calls :: "(ActionPtr \<times> ActionDesc \<times> string list) list"

section \<open>Wire messages\<close>

text \<open>
  Modelled from the spec: the structs of the \<^verbatim>\<open>protocol\<close> package are not in the sources;
  these are the fields the client reads and writes. Optional fields are pointers, and a
  getter returns the zero value where the pointer is \<^verbatim>\<open>nil\<close>. The wire's value-type enum
  has one enumerator per name of \<^verbatim>\<open>ValueTypeStrings\<close>; \<open>ValueType_0\<close> stands for the
  zero value that the table \<^verbatim>\<open>ValueType_value\<close>, a Go map, gives for an absent name.
\<close>

datatype protocol_ValueType = BOOLEAN | STRING | NUMBER | ValueType_0

definition ValueType_value :: "string \<Rightarrow> protocol_ValueType" where
  "ValueType_value name =
     (if name = ''BOOLEAN'' then BOOLEAN
      else if name = ''STRING'' then STRING
      else if name = ''NUMBER'' then NUMBER
      else ValueType_0)"

record protocol_Path =
  ThingId :: "string option"
  ComponentId :: "string option"
  Property :: "string option"
  Action :: "string option"

record protocol_Value =
  Value :: "string option"
  ValueType :: "protocol_ValueType option"
  Symbol :: "string option"

record ClientMessage_PropertyChange =
  Path :: "protocol_Path option"
  Value :: "protocol_Value option"

datatype ExecutionResult_Status = SUCCESS | FAILURE

record ClientMessage_ExecutionResult =
  ErrorReason :: "string option"
  Result :: "ExecutionResult_Status option"
  Sequence :: "uint64 option"

record ClientMessage =
  PropertyChange :: "ClientMessage_PropertyChange option"
  ExecutionResult :: "ClientMessage_ExecutionResult option"

record Execute_Parameter =
  Value :: "string option"

record ServerMessage_Execute =
  Path :: "protocol_Path option"
  Parameters :: "Execute_Parameter list"
  Sequence :: "uint64 option"

definition GetThingId :: "protocol_Path option \<Rightarrow> string" where
  "GetThingId p = (case p of None \<Rightarrow> [] | Some q \<Rightarrow> (case ThingId q of None \<Rightarrow> [] | Some x \<Rightarrow> x))"

definition GetComponentId :: "protocol_Path option \<Rightarrow> string" where
  "GetComponentId p =
     (case p of None \<Rightarrow> [] | Some q \<Rightarrow> (case ComponentId q of None \<Rightarrow> [] | Some x \<Rightarrow> x))"

definition GetActionName :: "protocol_Path option \<Rightarrow> string" where
  "GetActionName p =
     (case p of None \<Rightarrow> [] | Some q \<Rightarrow> (case protocol_Path.Action q of None \<Rightarrow> [] | Some x \<Rightarrow> x))"

text \<open>\<^verbatim>\<open>strings.ToUpper\<close> on ASCII text.\<close>

definition ToUpper :: "string \<Rightarrow> string" where
  "ToUpper str =
     map (\<lambda>ch. if 97 \<le> (of_char ch :: nat) \<and> (of_char ch :: nat) \<le> 122
                then char_of ((of_char ch :: nat) - 32) else ch) str"

text \<open>
  \<^verbatim>\<open>protocolValueTypeFromValueType\<close> (part_000, lines 97-100): the name of the type, in
  upper case, looked up in the table. It panics where \<^verbatim>\<open>v.String()\<close> does.
\<close>

definition protocolValueTypeFromValueType :: "ValueType \<Rightarrow> panic + protocol_ValueType" where
  "protocolValueTypeFromValueType v =
     (case ValueType_String v of
        Inl pn \<Rightarrow> Inl pn
      | Inr name \<Rightarrow> Inr (ValueType_value (ToUpper name)))"

section \<open>Client operations\<close>

text \<open>A \<^verbatim>\<open>range\<close> loop whose body may \<^verbatim>\<open>return\<close>: the result of the first iteration that does.\<close>

primrec range_return :: "('a \<Rightarrow> 'b option) \<Rightarrow> 'a list \<Rightarrow> 'b option" where
  "range_return body [] = None"
| "range_return body (x # xs) =
     (case body x of Some r \<Rightarrow> Some r | None \<Rightarrow> range_return body xs)"

text \<open>\<^verbatim>\<open>validNameRegexp = ^[A-Za-z0-9]+$\<close>, matched against the whole string.\<close>

definition alnum :: "char \<Rightarrow> bool" where
  "alnum ch =
     (let n = (of_char ch :: nat)
      in (65 \<le> n \<and> n \<le> 90) \<or> (97 \<le> n \<and> n \<le> 122) \<or> (48 \<le> n \<and> n \<le> 57))"

definition validName :: "string \<Rightarrow> bool" where
  "validName name = (name \<noteq> [] \<and> list_all alnum name)"

definition invalidProperty :: "State \<Rightarrow> PropertyPtr \<Rightarrow> error option" where
  "invalidProperty s property =
     (if \<not> validName (Property.Name (propertyAt s property))
      then Some (InvalidPropertyName (Property.Name (propertyAt s property))) else None)"

definition invalidAction :: "State \<Rightarrow> ActionPtr \<Rightarrow> error option" where
  "invalidAction s action =
     (if \<not> validName (ActionDesc.Name (actionAt s action))
      then Some (InvalidActionName (ActionDesc.Name (actionAt s action))) else None)"

definition validateThing :: "ClientPtr \<Rightarrow> ThingPtr \<Rightarrow> State \<Rightarrow> error option" where
  "validateThing c t s =
     (case range_return
        (\<lambda>thing. if Thing.Id (thingAt s thing) = Thing.Id (thingAt s t)
           then Some (ThingExists (Thing.Id (thingAt s t))) else None)
        (things (clientAt s c)) of
        Some e \<Rightarrow> Some e
      | None \<Rightarrow>
          range_return
            (\<lambda>component.
               case range_return (invalidProperty s)
                 (Component.Properties (componentAt s component)) of
                 Some e \<Rightarrow> Some e
               | None \<Rightarrow>
                   (case range_return (invalidAction s)
                      (Component.Actions (componentAt s component)) of
                      Some e \<Rightarrow> Some e
                    | None \<Rightarrow>
                        range_return
                          (\<lambda>capability.
                             case range_return (invalidProperty s)
                               (Capability.Properties (capabilityAt s capability)) of
                               Some e \<Rightarrow> Some e
                             | None \<Rightarrow>
                                 range_return (invalidAction s)
                                   (Capability.Actions (capabilityAt s capability)))
                          (Component.Capabilities (componentAt s component))))
            (Thing.Components (thingAt s t)))"

text \<open>The assignments of \<^verbatim>\<open>abstract\<close> (lines 139-153), one definition per loop body.\<close>

definition set_client :: "ClientPtr \<Rightarrow> PropertyPtr \<Rightarrow> State \<Rightarrow> State" where
  "set_client c property s =
     s\<lparr>propertyAt := (propertyAt s)
        (property := (propertyAt s property)\<lparr>Property.client := Some c\<rparr>)\<rparr>"

definition set_client_parent :: "ClientPtr \<Rightarrow> CapabilityPtr \<Rightarrow> PropertyPtr \<Rightarrow> State \<Rightarrow> State" where
  "set_client_parent c capability property s =
     s\<lparr>propertyAt := (propertyAt s)
        (property := (propertyAt s property)
           \<lparr>Property.client := Some c, Property.parent := Some capability\<rparr>)\<rparr>"

definition wire_capability :: "ClientPtr \<Rightarrow> ComponentPtr \<Rightarrow> CapabilityPtr \<Rightarrow> State \<Rightarrow> State" where
  "wire_capability c component capability s =
     (let s1 = fold (set_client_parent c capability)
                 (Capability.Properties (capabilityAt s capability)) s
      in s1\<lparr>capabilityAt := (capabilityAt s1)
           (capability := (capabilityAt s1 capability)\<lparr>Capability.parent := Some component\<rparr>)\<rparr>)"

definition wire_component :: "ClientPtr \<Rightarrow> ThingPtr \<Rightarrow> ComponentPtr \<Rightarrow> State \<Rightarrow> State" where
  "wire_component c t component s =
     (let s1 = s\<lparr>componentAt := (componentAt s)
                 (component := (componentAt s component)\<lparr>Component.parent := Some t\<rparr>)\<rparr>;
          s2 = fold (set_client c) (Component.Properties (componentAt s1 component)) s1
      in fold (wire_capability c component)
           (Component.Capabilities (componentAt s2 component)) s2)"

definition abstract :: "ClientPtr \<Rightarrow> ThingPtr \<Rightarrow> State \<Rightarrow> error option \<times> State" where
  "abstract c t s =
     (case validateThing c t s of
        Some e \<Rightarrow> (Some e, s)
      | None \<Rightarrow>
          (let s1 = fold (wire_component c t) (Thing.Components (thingAt s t)) s
           in (None, s1\<lparr>clientAt := (clientAt s1)
                 (c := (clientAt s1 c)\<lparr>things := things (clientAt s1 c) @ [t]\<rparr>)\<rparr>)))"

fun Abstract :: "ClientPtr \<Rightarrow> ThingPtr list \<Rightarrow> State \<Rightarrow> error option \<times> State" where
  "Abstract c [] s = (None, s)"
| "Abstract c (thing # rest) s =
     (case abstract c thing s of
        (Some e, s') \<Rightarrow> (Some e, s')
      | (None, s') \<Rightarrow> Abstract c rest s')"

text \<open>
  The loop of \<^verbatim>\<open>RemoveThing\<close> (lines 170-174): \<open>i\<close> is assigned the index of each
  element visited and keeps the last one assigned when the loop ends, by \<^verbatim>\<open>break\<close> or by
  running out of elements. \<open>k\<close> is the index of the next element.
\<close>

fun RemoveThing_loop :: "State \<Rightarrow> string \<Rightarrow> ThingPtr list \<Rightarrow> nat \<Rightarrow> nat \<Rightarrow> nat" where
  "RemoveThing_loop s tid [] k i = i"
| "RemoveThing_loop s tid (thing # rest) k i =
     (if Thing.Id (thingAt s thing) = tid then k else RemoveThing_loop s tid rest (k + 1) k)"

definition RemoveThing :: "ClientPtr \<Rightarrow> ThingPtr \<Rightarrow> State \<Rightarrow> error option \<times> State" where
  "RemoveThing c t s =
     (let ths = things (clientAt s c);
          i = RemoveThing_loop s (Thing.Id (thingAt s t)) ths 0 0
      in if length ths \<le> i then (Some (ThingNotFound (Thing.Id (thingAt s t))), s)
         else (None, s\<lparr>clientAt := (clientAt s)
                 (c := (clientAt s c)\<lparr>things := take i ths @ drop (i + 1) ths\<rparr>)\<rparr>))"

text \<open>
  \<^verbatim>\<open>send\<close> (lines 186-205), with the codec's \<^verbatim>\<open>proto.Marshal\<close> as the parameter \<open>Marshal\<close>.
  The length prefix is written into a buffer of four bytes. The receiver may be \<^verbatim>\<open>nil\<close>
  (the \<open>client\<close> of a property that was never registered): the call itself is legal and
  the panic comes with the first access to \<open>c.writer\<close>.
\<close>

definition set_writer :: "ClientPtr \<Rightarrow> Writer \<Rightarrow> State \<Rightarrow> State" where
  "set_writer c w s = s\<lparr>clientAt := (clientAt s)(c := (clientAt s c)\<lparr>writer := Some w\<rparr>)\<rparr>"

definition send ::
  "(ClientMessage \<Rightarrow> error + byte list) \<Rightarrow> ClientPtr option \<Rightarrow> ClientMessage \<Rightarrow> State
     \<Rightarrow> panic + (error option \<times> State)" where
  "send Marshal receiver msg s =
     (case Marshal msg of
        Inl e \<Rightarrow> Inr (Some e, s)
      | Inr data \<Rightarrow>
          (case PutUvarint (replicate 4 0) (of_nat (length data)) of
             Inl p \<Rightarrow> Inl p
           | Inr (lenBytes, lenLength) \<Rightarrow>
               (case receiver of
                  None \<Rightarrow> Inl NilDereference
                | Some c \<Rightarrow>
                    (case writer (clientAt s c) of
                       None \<Rightarrow> Inl NilDereference
                     | Some w \<Rightarrow>
                         (case Write w (take lenLength lenBytes) of
                            (Inl e, w1) \<Rightarrow> Inr (Some e, set_writer c w1 s)
                          | (Inr n0, w1) \<Rightarrow>
                              (case Write w1 data of
                                 (Inl e, w2) \<Rightarrow> Inr (Some e, set_writer c w2 s)
                               | (Inr n, w2) \<Rightarrow>
                                   if n \<noteq> length data
                                   then Inr (Some WriteFailed, set_writer c w2 s)
                                   else (case Flush w2 of
                                           (e, w3) \<Rightarrow> Inr (e, set_writer c w3 s))))))))"

text \<open>
  \<^verbatim>\<open>Property.Update\<close> (part_000, lines 72-95). The path is built first, then the value
  with the conversion of the declared type. The result of \<^verbatim>\<open>send\<close> is dropped.
\<close>

definition Update ::
  "(ClientMessage \<Rightarrow> error + byte list) \<Rightarrow> PropertyPtr \<Rightarrow> string \<Rightarrow> State
     \<Rightarrow> panic + (error option \<times> State)" where
  "Update Marshal p newValue s =
     (case Property.Value (propertyAt s p) of
        None \<Rightarrow> Inl NilDereference
      | Some v \<Rightarrow>
          if Value.Value v \<noteq> newValue then
            (case Property.parent (propertyAt s p) of
               None \<Rightarrow> Inl NilDereference
             | Some capability \<Rightarrow>
                 (case Capability.parent (capabilityAt s capability) of
                    None \<Rightarrow> Inl NilDereference
                  | Some component \<Rightarrow>
                      (case Component.parent (componentAt s component) of
                         None \<Rightarrow> Inl NilDereference
                       | Some thing \<Rightarrow>
                           (case protocolValueTypeFromValueType (Value.Type v) of
                              Inl pn \<Rightarrow> Inl pn
                            | Inr valueType \<Rightarrow>
                                (let path = \<lparr>ThingId = Some (Thing.Id (thingAt s thing)),
                                       ComponentId = Some (Component.Id (componentAt s component)),
                                       Property = Some (Property.Name (propertyAt s p)),
                                       Action = None\<rparr>;
                                     value = \<lparr>protocol_Value.Value = Some newValue,
                                       ValueType = Some valueType,
                                       Symbol = Some (Value.Symbol v)\<rparr>;
                                     propertyChange =
                                       \<lparr>ClientMessage_PropertyChange.Path = Some path,
                                        ClientMessage_PropertyChange.Value = Some value\<rparr>;
                                     cm = \<lparr>PropertyChange = Some propertyChange,
                                       ExecutionResult = None\<rparr>
                                 in case send Marshal (Property.client (propertyAt s p)) cm s of
                                      Inl pn \<Rightarrow> Inl pn
                                    | Inr (e, s') \<Rightarrow> Inr (None, s'))))))
          else Inr (None, s))"

text \<open>Resolution of an action path: first match at each level.\<close>

definition getThing :: "State \<Rightarrow> ClientPtr \<Rightarrow> string \<Rightarrow> ThingPtr option" where
  "getThing s c thingId =
     range_return (\<lambda>thing. if thingId = Thing.Id (thingAt s thing) then Some thing else None)
       (things (clientAt s c))"

definition GetComponent :: "State \<Rightarrow> ThingPtr \<Rightarrow> string \<Rightarrow> ComponentPtr option" where
  "GetComponent s t componentId =
     range_return
       (\<lambda>component. if componentId = Component.Id (componentAt s component)
          then Some component else None)
       (Thing.Components (thingAt s t))"

definition GetAction :: "State \<Rightarrow> ComponentPtr \<Rightarrow> string \<Rightarrow> ActionPtr option" where
  "GetAction s c actionName =
     range_return
       (\<lambda>capability.
          range_return
            (\<lambda>action. if ActionDesc.Name (actionAt s action) = actionName
               then Some action else None)
            (Capability.Actions (capabilityAt s capability)))
       (Component.Capabilities (componentAt s c))"

text \<open>The loop collecting \<^verbatim>\<open>*param.Value\<close> (lines 308-311).\<close>

fun param_values :: "Execute_Parameter list \<Rightarrow> panic + string list" where
  "param_values [] = Inr []"
| "param_values (param # rest) =
     (case Execute_Parameter.Value param of
        None \<Rightarrow> Inl NilDereference
      | Some v \<Rightarrow> (case param_values rest of Inl p \<Rightarrow> Inl p | Inr vs \<Rightarrow> Inr (v # vs)))"

text \<open>\<^verbatim>\<open>handleAction\<close> (lines 303-332).\<close>

definition handleAction ::
  "(ClientMessage \<Rightarrow> error + byte list) \<Rightarrow> ClientPtr \<Rightarrow> ServerMessage_Execute \<Rightarrow> State
     \<Rightarrow> panic + State" where
  "handleAction Marshal c msg s =
     (case getThing s c (GetThingId (ServerMessage_Execute.Path msg)) of
        None \<Rightarrow> Inr s
      | Some thing \<Rightarrow>
          (case GetComponent s thing (GetComponentId (ServerMessage_Execute.Path msg)) of
             None \<Rightarrow> Inr s
           | Some component \<Rightarrow>
               (case GetAction s component (GetActionName (ServerMessage_Execute.Path msg)) of
                  None \<Rightarrow> Inr s
                | Some action \<Rightarrow>
                    (case param_values (ServerMessage_Execute.Parameters msg) of
                       Inl p \<Rightarrow> Inl p
                     | Inr params \<Rightarrow>
                         (case Action.Execute (actionAt s action) of
                            None \<Rightarrow> Inl NilDereference
                          | Some handler \<Rightarrow>
                              (let desc = ActionDesc.truncate (actionAt s action);
                                   s1 = s\<lparr>calls := calls s @ [(action, desc, params)]\<rparr>;
                                   (status, errorMsg) =
                                     (case handler desc params of
                                        None \<Rightarrow> (SUCCESS, [])
                                      | Some e \<Rightarrow> (FAILURE, e));
                                   result = \<lparr>ErrorReason = Some errorMsg, Result = Some status,
                                     Sequence = ServerMessage_Execute.Sequence msg\<rparr>;
                                   message = \<lparr>PropertyChange = None, ExecutionResult = Some result\<rparr>
                               in case send Marshal (Some c) message s1 of
                                    Inl p \<Rightarrow> Inl p
                                  | Inr (e, s2) \<Rightarrow> Inr s2))))))"

text \<open>The bytes one call of \<^verbatim>\<open>send\<close> puts on the wire for an encoded message.\<close>

definition frame :: "byte list \<Rightarrow> panic + byte list" where
  "frame data =
     (case PutUvarint (replicate 4 0) (of_nat (length data)) of
        Inl p \<Rightarrow> Inl p
      | Inr (lenBytes, lenLength) \<Rightarrow> Inr (take lenLength lenBytes @ data))"

section \<open>A small installation\<close>

text \<open>
  A lamp with one component \<open>main\<close>. The component has the capability \<open>switch\<close>
  (property \<open>on\<close>, action \<open>turnOn\<close>, and action \<open>dim\<close> whose handler fails) and,
  directly, the property \<open>level\<close> and the action \<open>reset\<close>. Thing 1 is a fan; every other thing is a second lamp with the
  identifier of the first.
\<close>

definition ex_properties :: "PropertyPtr \<Rightarrow> Property" where
  "ex_properties p =
     (if p = 0 then
        \<lparr>Property.Value = Some \<lparr>Value.Type = Boolean, Symbol = ''state'', Value = ''off''\<rparr>,
         Name = ''on'', client = None, parent = None\<rparr>
      else
        \<lparr>Property.Value = Some \<lparr>Value.Type = Number, Symbol = ''percent'', Value = ''40''\<rparr>,
         Name = ''level'', client = None, parent = None\<rparr>)"

definition ex_actions :: "ActionPtr \<Rightarrow> Action" where
  "ex_actions a =
     (if a = 0 then
        \<lparr>ActionDesc.Name = ''turnOn'', Parameters = [], parent = None,
         Execute = Some (\<lambda>action params. None)\<rparr>
      else if a = 2 then
        \<lparr>ActionDesc.Name = ''dim'', Parameters = [], parent = None,
         Execute = Some (\<lambda>action params. Some ''not dimmable'')\<rparr>
      else
        \<lparr>ActionDesc.Name = ''reset'', Parameters = [], parent = None,
         Execute = Some (\<lambda>action params. Some ''not supported'')\<rparr>)"

definition ex_capabilities :: "CapabilityPtr \<Rightarrow> Capability" where
  "ex_capabilities k =
     \<lparr>Capability.Id = ''switch'', Actions = [0, 2], Properties = [0], parent = None\<rparr>"

definition ex_components :: "ComponentPtr \<Rightarrow> Component" where
  "ex_components k =
     \<lparr>Component.Id = ''main'', Name = ''Main'', ComponentType = ''core.Switch'',
      Capabilities = [0], Properties = [1], Actions = [1], parent = None\<rparr>"

definition ex_things :: "ThingPtr \<Rightarrow> Thing" where
  "ex_things t =
     (if t = 0 then
        \<lparr>Components = [0], Id = ''lamp'', Name = ''Lamp'', Manufacturer = ''ACME'',
         DisplayType = ''core.Lamp'', MaincomponentId = ''main'', Attributes = [],
         ComponentType = []\<rparr>
      else if t = 1 then
        \<lparr>Components = [], Id = ''fan'', Name = ''Fan'', Manufacturer = ''ACME'',
         DisplayType = ''core.Fan'', MaincomponentId = [], Attributes = [],
         ComponentType = []\<rparr>
      else
        \<lparr>Components = [], Id = ''lamp'', Name = ''Second lamp'', Manufacturer = ''ACME'',
         DisplayType = ''core.Lamp'', MaincomponentId = [], Attributes = [],
         ComponentType = []\<rparr>)"

definition ex_clients :: "ClientPtr \<Rightarrow> Client" where
  "ex_clients c =
     \<lparr>writer = Some \<lparr>buffered = [], flushed = [], err = None\<rparr>, things = [],
      updateCounter = 0, connected = True\<rparr>"

definition ex_state :: State where
  "ex_state =
     \<lparr>thingAt = ex_things, componentAt = ex_components, capabilityAt = ex_capabilities,
      propertyAt = ex_properties, actionAt = ex_actions, clientAt = ex_clients, calls = []\<rparr>"

text \<open>The lamp registered with client 0.\<close>

definition ex_registered :: State where
  "ex_registered = snd (Abstract 0 [0] ex_state)"

text \<open>A stand-in codec for the outbound direction: one tag byte, and the status of a result.\<close>

definition ex_Marshal :: "ClientMessage \<Rightarrow> error + byte list" where
  "ex_Marshal m =
     (case ExecutionResult m of
        Some r \<Rightarrow> Inr [2, (if Result r = Some SUCCESS then 1 else 0)]
      | None \<Rightarrow> Inr [1])"


text \<open>An execute-action message for the lamp's component \<open>main\<close>.\<close>

definition ex_execute :: "string \<Rightarrow> ServerMessage_Execute" where
  "ex_execute actionName =
     \<lparr>ServerMessage_Execute.Path = Some \<lparr>ThingId = Some ''lamp'', ComponentId = Some ''main'',
        Property = None, Action = Some actionName\<rparr>,
      Parameters = [\<lparr>Execute_Parameter.Value = Some ''now''\<rparr>], Sequence = Some 7\<rparr>"

text \<open>
  Stand-in codecs for the inbound direction. With \<open>Some\<close> every byte string decodes to
  itself, so the queue shows the payloads as the loop cut them. \<open>ex_Unmarshal\<close> accepts a
  payload that starts with the tag 1 and decodes it to the bytes after the tag.
\<close>

definition ex_Unmarshal :: "byte list \<Rightarrow> byte list option" where
  "ex_Unmarshal bs =
     (case bs of [] \<Rightarrow> None | tag # body \<Rightarrow> if tag = 1 then Some body else None)"

section \<open>Evaluation of the installation\<close>

lemmas ex_defs = ex_state_def ex_things_def ex_clients_def ex_components_def
  ex_capabilities_def ex_properties_def ex_actions_def

lemmas abstract_defs = abstract_def validateThing_def invalidProperty_def invalidAction_def
  validName_def alnum_def wire_component_def wire_capability_def set_client_def
  set_client_parent_def

lemma protocolValueTypeFromValueType_declared:
  "protocolValueTypeFromValueType Boolean = Inr BOOLEAN"
  "protocolValueTypeFromValueType String = Inr STRING"
  "protocolValueTypeFromValueType Number = Inr NUMBER"
  by code_simp+

lemma ValueType_declared_iff:
  "unat (v :: ValueType) < 3 \<longleftrightarrow> v = Boolean \<or> v = String \<or> v = Number"
proof -
  have "unat v < 3 \<longleftrightarrow> unat v = 0 \<or> unat v = 1 \<or> unat v = 2" by arith
  also have "\<dots> \<longleftrightarrow> v = 0 \<or> v = 1 \<or> v = 2"
    by (simp add: word_unat_eq_iff)
  finally show ?thesis by (simp add: Boolean_def String_def Number_def)
qed

lemma protocolValueTypeFromValueType_cases:
  "protocolValueTypeFromValueType v =
     (if v = Boolean then Inr BOOLEAN else if v = String then Inr STRING
      else if v = Number then Inr NUMBER else Inl IndexOutOfRange)"
proof (cases "unat v < 3")
  case True
  then have "v = Boolean \<or> v = String \<or> v = Number"
    by (simp add: ValueType_declared_iff)
  moreover have "Boolean \<noteq> String" "Boolean \<noteq> Number" "String \<noteq> Number"
    by (simp_all add: Boolean_def String_def Number_def)
  ultimately show ?thesis
    by (auto simp: protocolValueTypeFromValueType_declared)
next
  case False
  then have "protocolValueTypeFromValueType v = Inl IndexOutOfRange"
    by (simp add: protocolValueTypeFromValueType_def ValueType_String_def ValueTypeStrings_def)
  with False show ?thesis by (simp add: ValueType_declared_iff)
qed

lemma ex_registered_eval:
  "ex_registered =
     \<lparr>thingAt = ex_things,
      componentAt = ex_components(0 := (ex_components 0)\<lparr>Component.parent := Some 0\<rparr>),
      capabilityAt = ex_capabilities(0 := (ex_capabilities 0)\<lparr>Capability.parent := Some 0\<rparr>),
      propertyAt = ex_properties
        (1 := (ex_properties 1)\<lparr>Property.client := Some 0\<rparr>,
         0 := (ex_properties 0)\<lparr>Property.client := Some 0, Property.parent := Some 0\<rparr>),
      actionAt = ex_actions,
      clientAt = ex_clients(0 := (ex_clients 0)\<lparr>things := [0]\<rparr>),
      calls = []\<rparr>"
  by (simp add: ex_registered_def abstract_defs ex_defs)

section \<open>Short frames\<close>

lemma PutUvarint_small:
  assumes "n < 128"
  shows "PutUvarint (replicate 4 0) (of_nat n) = Inr ([of_nat n, 0, 0, 0], 1)"
proof -
  have "unat (of_nat n :: uint64) = n"
    using assms by (simp add: unat_of_nat)
  then have "\<not> (0x80 :: uint64) \<le> of_nat n"
    using assms by (simp add: word_le_nat_alt)
  moreover have "(ucast (of_nat n :: uint64) :: byte) = of_nat n"
    using assms by (simp add: unsigned_of_nat take_bit_eq_mod)
  ultimately show ?thesis
    by (simp add: PutUvarint_def PutUvarint_loop.simps [of _ 0] numeral_eq_Suc)
qed



lemma ex_Update_on:
  "Update ex_Marshal 0 ''on'' ex_registered =
     Inr (None, set_writer 0 \<lparr>buffered = [], flushed = [1, 1], err = None\<rparr> ex_registered)"
  by (simp add: ex_registered_eval Update_def Let_def ex_defs ex_Marshal_def
      protocolValueTypeFromValueType_declared send_def frame_def PutUvarint_small [of 1, simplified]
      Write_def Flush_def)

section \<open>Deregistration\<close>

lemma RemoveThing_loop_no_match:
  "\<forall>thing\<in>set ths. Thing.Id (thingAt s thing) \<noteq> tid \<Longrightarrow>
     RemoveThing_loop s tid ths k i = (if ths = [] then i else k + length ths - 1)"
  by (induction ths arbitrary: k i) auto

lemma RemoveThing_absent:
  assumes "\<forall>thing\<in>set (things (clientAt s c)). Thing.Id (thingAt s thing) \<noteq> Thing.Id (thingAt s t)"
  shows "RemoveThing c t s =
     (if things (clientAt s c) = [] then (Some (ThingNotFound (Thing.Id (thingAt s t))), s)
      else (None, s\<lparr>clientAt := (clientAt s)
              (c := (clientAt s c)\<lparr>things := butlast (things (clientAt s c))\<rparr>)\<rparr>))"
proof (cases "things (clientAt s c) = []")
  case True
  with assms show ?thesis by (simp add: RemoveThing_def Let_def)
next
  case False
  then have "0 < length (things (clientAt s c))" by simp
  then have "\<not> length (things (clientAt s c)) \<le> length (things (clientAt s c)) - Suc 0"
    by arith
  with assms False show ?thesis
    by (simp add: RemoveThing_def Let_def RemoveThing_loop_no_match butlast_conv_take)
qed

text \<open>
  C2. \<^verbatim>\<open>RemoveThing\<close> should fail with a not-found error, and remove nothing, when no
  registered thing has the identifier asked for. Evaluated with the lamp registered and
  the fan (never registered) to be removed: the loop ends with \<open>i = 0\<close>, the last index,
  the test \<open>i \<ge> len\<close> is false, no error is returned and the lamp is removed.
\<close>

theorem RemoveThing_removes_last_when_absent:
  "things (clientAt ex_registered 0) = [0]
   \<and> Thing.Id (thingAt ex_registered 0) = ''lamp''
   \<and> Thing.Id (thingAt ex_registered 1) = ''fan''
   \<and> fst (RemoveThing 0 1 ex_registered) = None
   \<and> things (clientAt (snd (RemoveThing 0 1 ex_registered)) 0) = []"
  by (simp add: ex_registered_eval RemoveThing_def Let_def ex_things_def)

section \<open>Registration wires the back-references\<close>

text \<open>
  C4. After registration every property should have its client and its parent set. Evaluated
  on the lamp: the property \<open>on\<close> of the capability has both; the property \<open>level\<close>, held
  by the component itself, has its client set and its parent left \<^verbatim>\<open>nil\<close>, and updating it
  to a new value panics while the path is built.
\<close>

theorem abstract_leaves_direct_property_without_parent:
  "fst (Abstract 0 [0] ex_state) = None
   \<and> Component.Properties (componentAt ex_registered 0) = [1]
   \<and> Property.client (propertyAt ex_registered 0) = Some 0
   \<and> Property.parent (propertyAt ex_registered 0) = Some 0
   \<and> Property.client (propertyAt ex_registered 1) = Some 0
   \<and> Property.parent (propertyAt ex_registered 1) = None
   \<and> Update ex_Marshal 1 ''50'' ex_registered = Inl NilDereference"
  by (simp add: ex_registered_eval Update_def)
    (simp add: abstract_defs ex_defs)

section \<open>Property updates\<close>

text \<open>
  C8. \<^verbatim>\<open>Update\<close> does not write to any property: when it returns, every property of the
  store has the value, type and symbol (and name and back-references) it had before,
  whether or not a message was sent.
\<close>

theorem Update_keeps_stored_value:
  "Update Marshal p newValue s = Inr r \<Longrightarrow> propertyAt (snd r) = propertyAt s"
  by (auto simp: Update_def send_def set_writer_def Let_def
      split: option.splits sum.splits if_splits prod.splits)

theorem Update_keeps_stored_value_witness:
  "Update ex_Marshal 0 ''on'' ex_registered =
     Inr (None, set_writer 0 \<lparr>buffered = [], flushed = [1, 1], err = None\<rparr> ex_registered)
   \<and> propertyAt (set_writer 0 \<lparr>buffered = [], flushed = [1, 1], err = None\<rparr> ex_registered)
       = propertyAt ex_registered"
  using Update_keeps_stored_value [OF ex_Update_on] ex_Update_on by simp

section \<open>The length prefix\<close>



















section \<open>The receive loop\<close>

text \<open>
  The loop on a stream delivered one prefix byte and one payload per read. A prefix byte
  with the high bit set is dropped, whatever follows. A frame with a one-byte prefix hands
  the decoder what \<open>messageBuf\<close> held before, followed by the payload.
\<close>

lemma ReadUvarint_continuation_byte:
  "\<not> b < 0x80 \<Longrightarrow> ReadUvarint [b] = (Inl ErrUnexpectedEOF, [])"
  by (simp add: ReadUvarint_def)

lemma ReadUvarint_last_byte:
  "b < 0x80 \<Longrightarrow> ReadUvarint [b] = (Inr (ucast b), [])"
  by (simp add: ReadUvarint_def)

lemma read_loop_drops_continuation_byte:
  assumes "\<not> b < 0x80"
  shows "read_loop Unmarshal messageBuf [] ([b] # cn) receiveChan
    = read_loop Unmarshal messageBuf [] cn receiveChan"
  using assms
  by (subst read_loop.simps) (simp add: ReadUvarint_continuation_byte)

lemma read_body_whole_chunk:
  assumes "length payload < 128" and "payload \<noteq> []"
  shows "read_body (of_nat (length payload)) 0 messageBuf (payload # cn) = (messageBuf @ payload, cn)"
proof -
  have u: "unat (of_nat (length payload) :: uint64) = length payload"
    using assms by (simp add: unat_of_nat)
  then have pos: "(0 :: uint64) < of_nat (length payload)"
    using assms by (simp add: word_less_nat_alt)
  have "read_body (of_nat (length payload)) 0 messageBuf (payload # cn)
      = read_body (of_nat (length payload)) (of_nat (length payload)) (messageBuf @ payload) cn"
    using pos u by (subst read_body.simps) simp
  also have "\<dots> = (messageBuf @ payload, cn)"
    by (subst read_body.simps) simp
  finally show ?thesis .
qed

lemma prefix_byte:
  assumes "n < 128"
  shows "(of_nat n :: byte) < 0x80" and "(ucast (of_nat n :: byte) :: uint64) = of_nat n"
proof -
  have u: "unat (of_nat n :: byte) = n" using assms by (simp add: unat_of_nat)
  then show "(of_nat n :: byte) < 0x80" using assms by (simp add: word_less_nat_alt)
  show "(ucast (of_nat n :: byte) :: uint64) = of_nat n"
    using assms by (simp add: unsigned_of_nat take_bit_eq_mod)
qed

lemma read_loop_frame:
  assumes "length payload < 128" and "payload \<noteq> []"
  shows "read_loop Unmarshal messageBuf [] ([of_nat (length payload)] # payload # cn) receiveChan =
     (case Unmarshal (messageBuf @ payload) of
        None \<Rightarrow> read_loop Unmarshal (messageBuf @ payload) [] cn receiveChan
      | Some m \<Rightarrow> read_loop Unmarshal [] [] cn (receiveChan @ [m]))"
  using prefix_byte [OF assms(1)] read_body_whole_chunk [OF assms]
  by (subst read_loop.simps) (simp add: ReadUvarint_last_byte)

lemma read_loop_end: "read_loop Unmarshal messageBuf lengthBuf [] receiveChan = receiveChan"
  by (subst read_loop.simps) simp

lemma read_after_malformed:
  assumes "length bad < 128" and "bad \<noteq> []" and "length good < 128" and "good \<noteq> []"
    and "Unmarshal bad = None"
  shows "read Unmarshal [[of_nat (length bad)], bad, [of_nat (length good)], good] =
     (case Unmarshal (bad @ good) of None \<Rightarrow> [] | Some m \<Rightarrow> [m])"
  using assms by (simp add: read_def read_loop_frame read_loop_end split: option.splits)

text \<open>
  C1. Framing round trip: the frames written by \<^verbatim>\<open>send\<close>, fed to the receive loop, should
  give back the messages, also for payloads of 128 bytes and more. Evaluated on one message
  of 128 zero bytes, whose frame starts with the two prefix bytes \<open>0x80 0x01\<close>, delivered
  one byte per read and delivered in one piece: \<^verbatim>\<open>ReadUvarint\<close> consumes \<open>0x80\<close> from
  \<open>lengthBuf\<close> and fails at the end of the buffer, the next call sees \<open>0x01\<close> alone and
  returns the length 1, and the loop emits a message of one byte followed by 127 empty
  ones. A payload of 127 bytes, with its one-byte prefix, comes back whole.
\<close>

theorem read_drops_first_byte_of_long_prefix:
  "frame (replicate 128 0) = Inr ([0x80, 0x01] @ replicate 128 0)
   \<and> read Some (map (\<lambda>b. [b]) ([0x80, 0x01] @ replicate 128 0)) = [0] # replicate 127 []
   \<and> read Some [[0x80, 0x01] @ replicate 128 0] = [0] # replicate 127 []
   \<and> read Some [[0x7f] @ replicate 127 0] = [replicate 127 0]"
  by code_simp

text \<open>
  C5. A frame whose payload does not decode should be dropped alone, and a well-formed
  frame right after it should be decoded and emitted. Evaluated on the malformed payload
  \<open>9 9\<close> followed by the well-formed \<open>1 5\<close> (and then \<open>1 6\<close>): the failure branch
  leaves \<open>9 9\<close> in \<open>messageBuf\<close>, the next payload is appended to it, the decoder is given
  \<open>9 9 1 5\<close> and fails again, and nothing is ever emitted. Alone, the frame of \<open>1 5\<close>
  is decoded and emitted.
\<close>

theorem read_keeps_malformed_payload:
  "frame [9, 9] = Inr [2, 9, 9] \<and> frame [1, 5] = Inr [2, 1, 5] \<and> frame [1, 6] = Inr [2, 1, 6]
   \<and> ex_Unmarshal [9, 9] = None \<and> ex_Unmarshal [1, 5] = Some [5]
   \<and> read ex_Unmarshal [[2, 1, 5]] = [[5]]
   \<and> read ex_Unmarshal [[2, 9, 9] @ [2, 1, 5]] = []
   \<and> read ex_Unmarshal [[2, 9, 9] @ [2, 1, 5] @ [2, 1, 6]] = []"
  by code_simp

section \<open>Registration of a batch\<close>

lemma fold_set_client_frame:
  "clientAt (fold (set_client c) ps s) = clientAt s"
  "thingAt (fold (set_client c) ps s) = thingAt s"
  by (induction ps arbitrary: s) (simp_all add: set_client_def)

lemma fold_set_client_parent_frame:
  "clientAt (fold (set_client_parent c k) ps s) = clientAt s"
  "thingAt (fold (set_client_parent c k) ps s) = thingAt s"
  by (induction ps arbitrary: s) (simp_all add: set_client_parent_def)

lemma wire_capability_frame:
  "clientAt (wire_capability c cmp k s) = clientAt s"
  "thingAt (wire_capability c cmp k s) = thingAt s"
  by (simp_all add: wire_capability_def Let_def fold_set_client_parent_frame)

lemma fold_wire_capability_frame:
  "clientAt (fold (wire_capability c cmp) ks s) = clientAt s"
  "thingAt (fold (wire_capability c cmp) ks s) = thingAt s"
  by (induction ks arbitrary: s) (simp_all add: wire_capability_frame)

lemma wire_component_frame:
  "clientAt (wire_component c t cmp s) = clientAt s"
  "thingAt (wire_component c t cmp s) = thingAt s"
  by (simp_all add: wire_component_def Let_def fold_wire_capability_frame fold_set_client_frame)

lemma fold_wire_component_frame:
  "clientAt (fold (wire_component c t) comps s) = clientAt s"
  "thingAt (fold (wire_component c t) comps s) = thingAt s"
  by (induction comps arbitrary: s) (simp_all add: wire_component_frame)

lemma abstract_ok:
  assumes "abstract c t s = (None, s')"
  shows "things (clientAt s' c) = things (clientAt s c) @ [t]" and "thingAt s' = thingAt s"
  using assms
  by (auto simp: abstract_def Let_def fold_wire_component_frame split: option.splits)

lemma abstract_error:
  "abstract c t s = (Some e, s') \<longleftrightarrow> validateThing c t s = Some e \<and> s' = s"
  by (auto simp: abstract_def Let_def split: option.splits)

lemma Abstract_ok:
  "Abstract c ts s = (None, s') \<Longrightarrow>
     things (clientAt s' c) = things (clientAt s c) @ ts \<and> thingAt s' = thingAt s"
proof (induction ts arbitrary: s)
  case Nil
  then show ?case by simp
next
  case (Cons t ts)
  then obtain s2 where a: "abstract c t s = (None, s2)" and r: "Abstract c ts s2 = (None, s')"
    by (auto split: prod.splits option.splits)
  from Cons.IH [OF r] abstract_ok [OF a] show ?case by simp
qed

lemma Abstract_append:
  "Abstract c (xs @ ys) s =
     (case Abstract c xs s of (Some e, s') \<Rightarrow> (Some e, s') | (None, s') \<Rightarrow> Abstract c ys s')"
  by (induction xs arbitrary: s) (auto split: prod.splits option.splits)

lemma range_return_const:
  "range_return (\<lambda>x. if P x then Some r else None) xs = (if \<exists>x\<in>set xs. P x then Some r else None)"
  by (induction xs) auto

lemma validateThing_duplicate:
  assumes "ta \<in> set (things (clientAt s c))" and "Thing.Id (thingAt s tb) = Thing.Id (thingAt s ta)"
  shows "validateThing c tb s = Some (ThingExists (Thing.Id (thingAt s tb)))"
  using assms by (auto simp: validateThing_def range_return_const)

lemma range_return_Some: "range_return f xs = Some r \<Longrightarrow> \<exists>x\<in>set xs. f x = Some r"
  by (induction xs) (auto split: option.splits)

lemma validateThing_errors:
  "validateThing c t s = Some e \<Longrightarrow>
     (\<exists>n. e = ThingExists n \<or> e = InvalidPropertyName n \<or> e = InvalidActionName n)"
  unfolding validateThing_def
  by (auto simp: invalidProperty_def invalidAction_def
      split: option.splits if_splits dest!: range_return_Some)

text \<open>
  C6. Registration of a batch is not all-or-nothing. When the things before \<open>t\<close> in the
  batch have all been registered and \<open>t\<close> then fails validation, \<^verbatim>\<open>Abstract\<close> returns
  that error (a duplicate identifier or an invalid property or action name), nothing
  from \<open>t\<close> on is appended, and the things before \<open>t\<close> stay registered, in order, after
  the things known before the call. In particular, once \<open>ta\<close> is registered, registering a
  thing with the same identifier fails with the duplicate error and changes nothing.
\<close>

theorem Abstract_keeps_earlier_things:
  "(Abstract c pre s = (None, s') \<and> validateThing c t s' = Some e \<longrightarrow>
      Abstract c (pre @ t # post) s = (Some e, s')
      \<and> things (clientAt s' c) = things (clientAt s c) @ pre
      \<and> (\<exists>n. e = ThingExists n \<or> e = InvalidPropertyName n \<or> e = InvalidActionName n))
   \<and> (Abstract c [ta] s = (None, s') \<and> Thing.Id (thingAt s tb) = Thing.Id (thingAt s ta) \<longrightarrow>
      Abstract c [tb] s' = (Some (ThingExists (Thing.Id (thingAt s tb))), s')
      \<and> things (clientAt s' c) = things (clientAt s c) @ [ta])"
proof (intro conjI impI)
  assume a: "Abstract c pre s = (None, s') \<and> validateThing c t s' = Some e"
  then have "abstract c t s' = (Some e, s')" by (simp add: abstract_error)
  with a show "Abstract c (pre @ t # post) s = (Some e, s')"
    by (simp add: Abstract_append)
  from a show "things (clientAt s' c) = things (clientAt s c) @ pre"
    by (simp add: Abstract_ok)
  from a show "\<exists>n. e = ThingExists n \<or> e = InvalidPropertyName n \<or> e = InvalidActionName n"
    by (blast dest: validateThing_errors)
next
  assume a: "Abstract c [ta] s = (None, s') \<and> Thing.Id (thingAt s tb) = Thing.Id (thingAt s ta)"
  then have ok: "things (clientAt s' c) = things (clientAt s c) @ [ta]" "thingAt s' = thingAt s"
    using Abstract_ok [of c "[ta]" s s'] by simp_all
  then have "validateThing c tb s' = Some (ThingExists (Thing.Id (thingAt s' tb)))"
    using a by (intro validateThing_duplicate [of ta]) simp_all
  then show "Abstract c [tb] s' = (Some (ThingExists (Thing.Id (thingAt s tb))), s')"
    using ok by (simp add: abstract_def)
  from ok show "things (clientAt s' c) = things (clientAt s c) @ [ta]" by simp
qed


lemma ex_two_registered:
  "Abstract 0 [0, 1] ex_state = (None, snd (Abstract 0 [0, 1] ex_state))
   \<and> things (clientAt (snd (Abstract 0 [0, 1] ex_state)) 0) = [0, 1]
   \<and> thingAt (snd (Abstract 0 [0, 1] ex_state)) = ex_things"
  by (simp add: abstract_defs ex_defs)

theorem Abstract_keeps_earlier_things_witness:
  "Abstract 0 ([0, 1] @ 2 # [1]) ex_state
     = (Some (ThingExists ''lamp''), snd (Abstract 0 [0, 1] ex_state))
   \<and> things (clientAt (snd (Abstract 0 [0, 1] ex_state)) 0) = [0, 1]
   \<and> Abstract 0 [2] ex_registered = (Some (ThingExists ''lamp''), ex_registered)
   \<and> things (clientAt ex_registered 0) = [0]"
proof -
  have v: "validateThing 0 2 (snd (Abstract 0 [0, 1] ex_state)) = Some (ThingExists ''lamp'')"
    using ex_two_registered by (simp add: validateThing_def ex_things_def)
  have r: "Abstract 0 [0] ex_state = (None, ex_registered)"
    by (simp add: ex_registered_def abstract_defs ex_defs)
  have i: "Thing.Id (thingAt ex_state 2) = Thing.Id (thingAt ex_state 0)"
    by (simp add: ex_defs)
  show ?thesis
    using Abstract_keeps_earlier_things [where c = 0 and pre = "[0, 1]" and s = ex_state
        and s' = "snd (Abstract 0 [0, 1] ex_state)" and t = 2 and e = "ThingExists ''lamp''"
        and post = "[1]"]
      Abstract_keeps_earlier_things [where c = 0 and s = ex_state and s' = ex_registered
        and ta = 0 and tb = 2]
      ex_two_registered v r i
    by (simp add: ex_defs)
qed

section \<open>Action dispatch\<close>



lemma range_return_None: "\<forall>x\<in>set xs. f x = None \<Longrightarrow> range_return f xs = None"
  by (induction xs) auto

text \<open>
  C9. \<^verbatim>\<open>GetAction\<close> searches the actions of the component's capabilities only. For a
  component that holds an action of the requested name directly while none of its
  capabilities does, \<^verbatim>\<open>GetAction\<close> returns \<^verbatim>\<open>nil\<close>, and an execute-action message
  addressed to that action leaves the whole state as it was: no handler is called and
  nothing is written.
\<close>

theorem GetAction_ignores_direct_actions:
  assumes "\<exists>a\<in>set (Component.Actions (componentAt s component)).
             ActionDesc.Name (actionAt s a) = actionName"
    and "\<forall>capability\<in>set (Component.Capabilities (componentAt s component)).
           \<forall>a\<in>set (Capability.Actions (capabilityAt s capability)).
             ActionDesc.Name (actionAt s a) \<noteq> actionName"
  shows "GetAction s component actionName = None
    \<and> (getThing s c (GetThingId (ServerMessage_Execute.Path msg)) = Some thing
       \<and> GetComponent s thing (GetComponentId (ServerMessage_Execute.Path msg)) = Some component
       \<and> GetActionName (ServerMessage_Execute.Path msg) = actionName
       \<longrightarrow> handleAction Marshal c msg s = Inr s)"
proof -
  have none: "GetAction s component actionName = None"
    unfolding GetAction_def
    using assms(2) by (intro range_return_None ballI) simp
  then show ?thesis by (auto simp: handleAction_def)
qed

lemma ex_resolve:
  "getThing ex_registered 0 (GetThingId (ServerMessage_Execute.Path (ex_execute n))) = Some 0"
  "GetComponent ex_registered 0 (GetComponentId (ServerMessage_Execute.Path (ex_execute n))) = Some 0"
  "GetActionName (ServerMessage_Execute.Path (ex_execute n)) = n"
  by (simp_all add: ex_registered_eval ex_execute_def getThing_def GetComponent_def GetThingId_def
      GetComponentId_def GetActionName_def ex_defs)

theorem GetAction_ignores_direct_actions_witness:
  "Component.Actions (componentAt ex_registered 0) = [1]
   \<and> ActionDesc.Name (actionAt ex_registered 1) = ''reset''
   \<and> GetAction ex_registered 0 ''reset'' = None
   \<and> handleAction ex_Marshal 0 (ex_execute ''reset'') ex_registered = Inr ex_registered"
  using GetAction_ignores_direct_actions [of ex_registered 0 "''reset''" 0 "ex_execute ''reset''" 0
      ex_Marshal] ex_resolve [of "''reset''"]
  by (simp add: ex_registered_eval ex_defs)



text \<open>
  The conversion of the declared type fails for every byte that is not one of the three
  declared constants, and \<^verbatim>\<open>Update\<close> then panics after the path is built and before
  anything is sent.
\<close>

lemma Update_panics_on_undeclared_type:
  assumes "Property.Value (propertyAt s p) = Some v" and "Value.Value v \<noteq> newValue"
    and "Property.parent (propertyAt s p) = Some capability"
    and "Capability.parent (capabilityAt s capability) = Some component"
    and "Component.parent (componentAt s component) = Some thing"
    and "Value.Type v \<notin> {Boolean, String, Number}"
  shows "Update Marshal p newValue s = Inl IndexOutOfRange"
  using assms by (simp add: Update_def protocolValueTypeFromValueType_cases)



end
